theory Spec2Isabelle
  imports Main
begin

section \<open>Strings and the regular expressions of the image normalizers\<close>

text \<open>
  A JavaScript string is modelled as a \<^typ>\<open>string\<close>: one \<^typ>\<open>char\<close> per code unit,
  for code units in the range 0..255. \<open>null\<close> and \<open>undefined\<close> are \<open>None\<close> of an option.
\<close>

text \<open>\<open>s.startsWith(p)\<close>\<close>

fun startsWith :: "string \<Rightarrow> string \<Rightarrow> bool" where
  "startsWith s [] = True"
| "startsWith [] (p # ps) = False"
| "startsWith (c # cs) (p # ps) = (c = p \<and> startsWith cs ps)"

text \<open>\<open>s.includes(p)\<close>: \<open>p\<close> occurs at some position of \<open>s\<close>.\<close>

fun includes_str :: "string \<Rightarrow> string \<Rightarrow> bool" where
  "includes_str [] p = (p = [])"
| "includes_str (c # cs) p = (startsWith (c # cs) p \<or> includes_str cs p)"

text \<open>The character class \<open>[a-zA-Z0-9_-]\<close> of every capture group in the source.\<close>

definition idchar :: "char \<Rightarrow> bool" where
  "idchar c \<longleftrightarrow>
     c \<in> set ''abcdefghijklmnopqrstuvwxyzABCDEFGHIJKLMNOPQRSTUVWXYZ0123456789_-''"

text \<open>
  Every regular expression that the two normalizers pass to \<open>String.prototype.match\<close> has
  the shape \<open>/<atoms>([a-zA-Z0-9_-]+)/\<close>: a fixed sequence of single-character atoms (a
  literal character, or a class such as \<open>[?&]\<close>) followed by one greedy capture group.
  \<open>re_capture atoms s\<close> is \<open>m[1]\<close> for \<open>m = s.match(/<atoms>([a-zA-Z0-9_-]+)/)\<close>, and
  \<open>None\<close> when \<open>m\<close> is \<open>null\<close>. Without the \<open>g\<close> flag the match is the leftmost one; the
  group is greedy and nothing follows it, so it is the longest run of class characters.
\<close>

datatype re_atom = Lit char | OneOf string

fun atom_ok :: "re_atom \<Rightarrow> char \<Rightarrow> bool" where
  "atom_ok (Lit a) c = (c = a)"
| "atom_ok (OneOf as) c = (c \<in> set as)"

text \<open>Match the atoms at the start of the string; the result is what is left of it.\<close>

fun prefix_at :: "re_atom list \<Rightarrow> string \<Rightarrow> string option" where
  "prefix_at [] s = Some s"
| "prefix_at (a # as) [] = None"
| "prefix_at (a # as) (c # cs) = (if atom_ok a c then prefix_at as cs else None)"

text \<open>An attempt at one start position: the atoms, then at least one class character.\<close>

definition capture_at :: "re_atom list \<Rightarrow> string \<Rightarrow> string option" where
  "capture_at p s =
     (case prefix_at p s of
        None \<Rightarrow> None
      | Some r \<Rightarrow> (if takeWhile idchar r = [] then None else Some (takeWhile idchar r)))"

text \<open>The search moves the start position from left to right.\<close>

fun re_capture :: "re_atom list \<Rightarrow> string \<Rightarrow> string option" where
  "re_capture p [] = capture_at p []"
| "re_capture p (c # cs) =
     (case capture_at p (c # cs) of Some g \<Rightarrow> Some g | None \<Rightarrow> re_capture p cs)"

definition lits :: "string \<Rightarrow> re_atom list" where
  "lits s = map Lit s"

text \<open>\<open>/googleusercontent\.com\/d\/([a-zA-Z0-9_-]+)/\<close>\<close>
definition lh3_pat :: "re_atom list" where
  "lh3_pat = lits ''googleusercontent.com/d/''"

text \<open>\<open>/\/file\/d\/([a-zA-Z0-9_-]+)/\<close>\<close>
definition file_pat :: "re_atom list" where
  "file_pat = lits ''/file/d/''"

text \<open>\<open>/open\?id=([a-zA-Z0-9_-]+)/\<close>\<close>
definition open_pat :: "re_atom list" where
  "open_pat = lits ''open?id=''"

text \<open>\<open>/[?&]id=([a-zA-Z0-9_-]+)/\<close>\<close>
definition id_pat :: "re_atom list" where
  "id_pat = OneOf ''?&'' # lits ''id=''"

text \<open>\<open>/\/d\/([a-zA-Z0-9_-]+)/\<close>\<close>
definition d_pat :: "re_atom list" where
  "d_pat = lits ''/d/''"

text \<open>\<open>/uc\?export=view&id=([a-zA-Z0-9_-]+)/\<close>\<close>
definition uc_pat :: "re_atom list" where
  "uc_pat = lits ''uc?export=view&id=''"

text \<open>\<open>/^[a-zA-Z0-9_-]{20,}$/.test(s)\<close>: the whole string, twenty or more class characters.\<close>

definition bare_id :: "string \<Rightarrow> bool" where
  "bare_id s \<longleftrightarrow> 20 \<le> length s \<and> list_all idchar s"

subsection \<open>\<open>encodeURIComponent\<close>\<close>

text \<open>
  Unreserved characters stay; every other code unit below 128 becomes \<open>%XX\<close>, and a code
  unit from 128 to 255 becomes the two bytes of its UTF-8 encoding, each as \<open>%XX\<close>, with
  upper-case hexadecimal digits.
\<close>

definition uri_unreserved :: "char \<Rightarrow> bool" where
  "uri_unreserved c \<longleftrightarrow> idchar c \<or> c \<in> set ''.!~*'' \<or> c \<in> set [CHR 0x27, CHR ''('', CHR '')'']"

definition hex_digit :: "nat \<Rightarrow> char" where
  "hex_digit n = ''0123456789ABCDEF'' ! (n mod 16)"

definition pct_byte :: "nat \<Rightarrow> string" where
  "pct_byte b = [CHR ''%'', hex_digit (b div 16), hex_digit b]"

definition encode_unit :: "char \<Rightarrow> string" where
  "encode_unit c =
     (if uri_unreserved c then [c]
      else if (of_char c :: nat) < 128 then pct_byte (of_char c)
      else pct_byte (192 + of_char c div 64) @ pct_byte (128 + of_char c mod 64))"

definition encodeURIComponent :: "string \<Rightarrow> string" where
  "encodeURIComponent s = concat (map encode_unit s)"

section \<open>The display-time normalizer: \<open>getEmbeddableImageUrl\<close> (src/lib/utils.ts)\<close>

text \<open>
  \<open>import.meta.env.VITE_API_URL || 'http://localhost:8000'\<close>: the configured value is a
  string or undefined, and an empty string is falsy.
\<close>

definition api_url :: "string option \<Rightarrow> string" where
  "api_url env =
     (case env of
        None \<Rightarrow> ''http://localhost:8000''
      | Some v \<Rightarrow> (if v = [] then ''http://localhost:8000'' else v))"

text \<open>
  The block of the source that fills the local variable \<open>fileId\<close>: all five matches are
  computed, and each one after the first is stored only while \<open>fileId\<close> is still empty.
\<close>

definition display_file_id :: "string \<Rightarrow> string" where
  "display_file_id url =
     (let fileId = [];
          lh3Match = re_capture lh3_pat url;
          fileId = (case lh3Match of Some g \<Rightarrow> g | None \<Rightarrow> fileId);
          fileMatch = re_capture file_pat url;
          fileId = (case fileMatch of Some g \<Rightarrow> (if fileId = [] then g else fileId) | None \<Rightarrow> fileId);
          openMatch = re_capture open_pat url;
          fileId = (case openMatch of Some g \<Rightarrow> (if fileId = [] then g else fileId) | None \<Rightarrow> fileId);
          idMatch = re_capture id_pat url;
          fileId = (case idMatch of Some g \<Rightarrow> (if fileId = [] then g else fileId) | None \<Rightarrow> fileId);
          dMatch = re_capture d_pat url;
          fileId = (case dMatch of Some g \<Rightarrow> (if fileId = [] then g else fileId) | None \<Rightarrow> fileId)
      in fileId)"

definition getEmbeddableImageUrl :: "string option \<Rightarrow> string option \<Rightarrow> string" where
  "getEmbeddableImageUrl env input =
     (case input of
        None \<Rightarrow> ''/placeholder.jpg''
      | Some url \<Rightarrow>
          if url = [] then ''/placeholder.jpg''
          else if startsWith url ''data:'' then url
          else if startsWith url ''/'' then url
          else if startsWith url ''http://localhost'' then url
          else if \<not> includes_str url ''google.com'' \<and> \<not> includes_str url ''googleusercontent.com''
          then url
          else
            (let fileId = display_file_id url
             in if fileId \<noteq> [] then api_url env @ ''/api/images/drive/'' @ fileId
                else api_url env @ ''/api/images/proxy?url='' @ encodeURIComponent url))"

section \<open>The admin-side normalizer: \<open>extractDriveUrl\<close> (src/pages/admin/AdminProducts.tsx)\<close>

text \<open>The block of \<open>extractDriveUrl\<close> that fills its local variable \<open>fileId\<close>.\<close>

definition admin_file_id :: "string \<Rightarrow> string" where
  "admin_file_id input =
     (let fileId = [];
          fileMatch = re_capture file_pat input;
          fileId = (case fileMatch of Some g \<Rightarrow> g | None \<Rightarrow> fileId);
          openMatch = re_capture id_pat input;
          fileId = (case openMatch of Some g \<Rightarrow> (if fileId = [] then g else fileId) | None \<Rightarrow> fileId);
          ucMatch = re_capture uc_pat input;
          fileId = (case ucMatch of Some g \<Rightarrow> (if fileId = [] then g else fileId) | None \<Rightarrow> fileId);
          fileId = (if fileId = [] \<and> bare_id input then input else fileId)
      in fileId)"

definition extractDriveUrl :: "string \<Rightarrow> string" where
  "extractDriveUrl input =
     (if input = [] then []
      else if includes_str input ''lh3.googleusercontent.com'' then input
      else
        (let fileId = admin_file_id input
         in if fileId \<noteq> [] then ''https://lh3.googleusercontent.com/d/'' @ fileId
            else input))"



section \<open>The HTTP layer: \<open>apiRequest\<close> (src/lib/api.ts)\<close>

text \<open>The interfaces \<open>AdminUser\<close> and \<open>AuthResponse\<close> of the type definitions.\<close>

record AdminUser =
  user_id :: string
  email :: string
  displayName :: "string option"
  user_isAdmin :: bool

record AuthResponse =
  access_token :: string
  token_type :: string
  auth_user :: AdminUser

text \<open>
  The slice of the auth store that its \<open>partialize\<close> option selects; the \<open>persist\<close>
  middleware keeps it, serialised, under the key \<open>auth-storage\<close>.
\<close>

record persisted =
  p_user :: "AdminUser option"
  p_isAdmin :: bool
  p_token :: "string option"

text \<open>
  \<open>sessionStorage\<close>, reduced to the two keys the program uses: \<open>auth_token\<close> and
  \<open>auth-storage\<close>. \<open>None\<close> is a key that is not there (\<open>getItem\<close> returns \<open>null\<close>).
\<close>

record session_storage =
  auth_token :: "string option"
  auth_storage :: "persisted option"

text \<open>The request that reaches \<open>fetch\<close>, and what \<open>fetch\<close> and \<open>response.json()\<close> give back.\<close>

datatype json_body = LoginBody string string
  \<comment> \<open>\<open>JSON.stringify({ email, password })\<close>\<close>

record RequestInit =
  "method" :: "string option"
  body :: "json_body option"

record request =
  fetch_url :: string
  fetch_method :: "string option"
  fetch_headers :: "(string \<times> string) list"
  fetch_body :: "json_body option"

text \<open>
  A JSON value, as \<open>JSON.parse\<close> delivers it. A number is given by the text that
  \<open>String\<close> makes of it (\<open>0\<close> and \<open>-0\<close> both give \<open>0\<close>); an object is the list of its
  members in the order of the text.
\<close>

datatype json =
    JNull
  | JBool bool
  | JNumber string
  | JString string
  | JArray "json list"
  | JObject "(string \<times> json) list"

text \<open>Truthiness, as \<open>||\<close> tests it: \<open>null\<close>, \<open>false\<close>, \<open>0\<close> and \<open>''\<close> are falsy.\<close>

fun js_truthy :: "json \<Rightarrow> bool" where
  "js_truthy JNull = False"
| "js_truthy (JBool b) = b"
| "js_truthy (JNumber t) = (t \<noteq> ''0'')"
| "js_truthy (JString s) = (s \<noteq> [])"
| "js_truthy (JArray xs) = True"
| "js_truthy (JObject fs) = True"

fun join_comma :: "string list \<Rightarrow> string" where
  "join_comma [] = []"
| "join_comma [x] = x"
| "join_comma (x # y # ys) = x @ '','' @ join_comma (y # ys)"

text \<open>
  \<open>String(v)\<close>, which \<open>new Error(v)\<close> applies to its argument: a string is itself, an
  array is its elements joined by commas (with \<open>null\<close> elements left empty), an object is
  \<open>[object Object]\<close>.
\<close>

fun js_string :: "json \<Rightarrow> string" where
  "js_string JNull = ''null''"
| "js_string (JBool b) = (if b then ''true'' else ''false'')"
| "js_string (JNumber t) = t"
| "js_string (JString s) = s"
| "js_string (JArray xs) = join_comma (map (\<lambda>x. if x = JNull then [] else js_string x) xs)"
| "js_string (JObject fs) = ''[object Object]''"

text \<open>
  \<open>v.detail\<close> for a value other than \<open>null\<close>: the member of an object (the last one when
  the key is repeated, as \<open>JSON.parse\<close> keeps it), and \<open>undefined\<close>, here \<open>None\<close>, for an
  object without it and for a boolean, a number, a string or an array.
\<close>

fun detail_of :: "json \<Rightarrow> json option" where
  "detail_of (JObject fs) = map_of (rev fs) ''detail''"
| "detail_of v = None"

text \<open>
  Reading a property of \<open>null\<close> throws a \<open>TypeError\<close>. Its message is the engine's; this
  is the wording of V8.
\<close>

definition null_property_message :: "string \<Rightarrow> string" where
  "null_property_message prop =
     ''Cannot read properties of null (reading '' @ [CHR 0x27] @ prop @ [CHR 0x27] @ '')''"

text \<open>
  \<open>response.json()\<close> rejects with a \<open>SyntaxError\<close> (its message is kept) or resolves to
  the parsed body. The code reads a parsed body in two ways: on the error path as the
  untyped JSON value it is, and on the success path as a whole at the type \<open>T\<close> of
  \<open>apiRequest<T>\<close>.
\<close>

datatype 'a parsed = SyntaxError string | Json json 'a

text \<open>
  \<open>fetch\<close> rejects with an \<open>Error\<close> (network failure; its message is kept) or resolves
  to a response with a status code and a body. \<open>response.ok\<close> is a status from 200 to 299.
\<close>

datatype 'a fetch_result = Rejected string | Response nat "'a parsed"

type_synonym 'a remote = "request \<Rightarrow> 'a fetch_result"

definition response_ok :: "nat \<Rightarrow> bool" where
  "response_ok status \<longleftrightarrow> 200 \<le> status \<and> status \<le> 299"

text \<open>The decimal digits of a status code, for the template literal.\<close>

function show_nat :: "nat \<Rightarrow> string" where
  "show_nat n =
     (if n < 10 then [''0123456789'' ! n]
      else show_nat (n div 10) @ [''0123456789'' ! (n mod 10)])"
  by pat_completeness auto
termination
  by (relation "measure (\<lambda>n. n)") auto

declare show_nat.simps [simp del]

definition getAuthHeader :: "session_storage \<Rightarrow> (string \<times> string) list" where
  "getAuthHeader ss =
     (case auth_token ss of
        None \<Rightarrow> []
      | Some tok \<Rightarrow> (if tok \<noteq> [] then [(''Authorization'', ''Bearer '' @ tok)] else []))"

text \<open>
  The arguments that \<open>apiRequest\<close> hands to \<open>fetch\<close>: the URL under the API base, the
  caller's options, and the default headers (the calls modelled here pass no headers of
  their own).
\<close>

definition build_request :: "string option \<Rightarrow> session_storage \<Rightarrow> string \<Rightarrow> RequestInit \<Rightarrow> request" where
  "build_request env ss endpoint options =
     (let defaultHeaders = (''Content-Type'', ''application/json'') # getAuthHeader ss
      in \<lparr>fetch_url = api_url env @ endpoint, fetch_method = method options,
          fetch_headers = defaultHeaders, fetch_body = body options\<rparr>)"

text \<open>
  \<open>apiRequest\<close> returns \<open>Inr\<close> of the parsed body, or \<open>Inl\<close> of the message of the
  \<open>Error\<close> it throws (everything thrown on these paths is an \<open>Error\<close> object).
\<close>

definition apiRequest ::
  "string option \<Rightarrow> 'a remote \<Rightarrow> session_storage \<Rightarrow> string \<Rightarrow> RequestInit \<Rightarrow> string + 'a" where
  "apiRequest env remote ss endpoint options =
     (case remote (build_request env ss endpoint options) of
        Rejected msg \<Rightarrow> Inl msg
      | Response status b \<Rightarrow>
          if \<not> response_ok status then
            (let errorData =
                   (case b of
                      SyntaxError _ \<Rightarrow> JObject [(''detail'', JString ''Request failed'')]
                    | Json j _ \<Rightarrow> j)
             in if errorData = JNull then Inl (null_property_message ''detail'')
                else
                  (case detail_of errorData of
                     Some d \<Rightarrow>
                       (if js_truthy d then Inl (js_string d)
                        else Inl (''HTTP error! status: '' @ show_nat status))
                   | None \<Rightarrow> Inl (''HTTP error! status: '' @ show_nat status)))
          else (case b of SyntaxError msg \<Rightarrow> Inl msg | Json _ payload \<Rightarrow> Inr payload))"

section \<open>The auth store (store/authStore.ts) and the auth service (lib/authService.ts)\<close>

record AuthState =
  user :: "AdminUser option"
  isAdmin :: bool
  isLoading :: bool
  token :: "string option"

text \<open>Everything the session code reads or writes: the browser storage and the store.\<close>

record world =
  storage :: session_storage
  store :: AuthState

definition initial_store :: AuthState where
  "initial_store = \<lparr>user = None, isAdmin = False, isLoading = True, token = None\<rparr>"

text \<open>
  The store is wrapped in \<open>persist\<close> with \<open>name: 'auth-storage'\<close> on \<open>sessionStorage\<close>:
  after every \<open>set\<close> the middleware writes the partialized state under that key.
\<close>

definition persist :: "world \<Rightarrow> world" where
  "persist w =
     w\<lparr>storage := (storage w)\<lparr>auth_storage :=
          Some \<lparr>p_user = user (store w), p_isAdmin = isAdmin (store w), p_token = token (store w)\<rparr>\<rparr>\<rparr>"

definition setUser :: "AdminUser option \<Rightarrow> world \<Rightarrow> world" where
  "setUser u w =
     persist (w\<lparr>store := (store w)\<lparr>user := u,
        isAdmin := (case u of None \<Rightarrow> False | Some x \<Rightarrow> user_isAdmin x)\<rparr>\<rparr>)"

definition setIsAdmin :: "bool \<Rightarrow> world \<Rightarrow> world" where
  "setIsAdmin b w = persist (w\<lparr>store := (store w)\<lparr>isAdmin := b\<rparr>\<rparr>)"

definition setIsLoading :: "bool \<Rightarrow> world \<Rightarrow> world" where
  "setIsLoading b w = persist (w\<lparr>store := (store w)\<lparr>isLoading := b\<rparr>\<rparr>)"

definition setToken :: "string option \<Rightarrow> world \<Rightarrow> world" where
  "setToken t w =
     (let w1 = (case t of
                  None \<Rightarrow> w\<lparr>storage := (storage w)\<lparr>auth_token := None\<rparr>\<rparr>
                | Some tok \<Rightarrow>
                    (if tok \<noteq> [] then w\<lparr>storage := (storage w)\<lparr>auth_token := Some tok\<rparr>\<rparr>
                     else w\<lparr>storage := (storage w)\<lparr>auth_token := None\<rparr>\<rparr>))
      in persist (w1\<lparr>store := (store w1)\<lparr>token := t\<rparr>\<rparr>))"

definition logout :: "world \<Rightarrow> world" where
  "logout w =
     (let w1 = w\<lparr>storage := (storage w)\<lparr>auth_token := None\<rparr>\<rparr>;
          w2 = w1\<lparr>storage := (storage w1)\<lparr>auth_storage := None\<rparr>\<rparr>
      in persist (w2\<lparr>store := (store w2)\<lparr>user := None, isAdmin := False, token := None\<rparr>\<rparr>))"

text \<open>The object \<open>{ user, token, error }\<close> that \<open>signInAdmin\<close> resolves to.\<close>

record signin_result =
  res_user :: "AdminUser option"
  res_token :: "string option"
  res_error :: "string option"

text \<open>The request of \<open>signInAdmin\<close>, and the function. \<open>console.error\<close> is not modelled.\<close>

definition login_options :: "string \<Rightarrow> string \<Rightarrow> RequestInit" where
  "login_options em pw = \<lparr>method = Some ''POST'', body = Some (LoginBody em pw)\<rparr>"

definition signInAdmin ::
  "string option \<Rightarrow> AuthResponse remote \<Rightarrow> string \<Rightarrow> string \<Rightarrow> world \<Rightarrow> signin_result \<times> world" where
  "signInAdmin env remote em pw w =
     (case apiRequest env remote (storage w) ''/api/auth/login'' (login_options em pw) of
        Inr response \<Rightarrow>
          (\<lparr>res_user = Some (auth_user response), res_token = Some (access_token response),
            res_error = None\<rparr>,
           w\<lparr>storage := (storage w)\<lparr>auth_token := Some (access_token response)\<rparr>\<rparr>)
      | Inl errorMessage \<Rightarrow>
          (\<lparr>res_user = None, res_token = None, res_error = Some errorMessage\<rparr>, w))"

text \<open>\<open>signOutAdmin\<close> resolves to \<open>{ error }\<close>; \<open>removeItem\<close> does not throw.\<close>

definition signOutAdmin :: "world \<Rightarrow> string option \<times> world" where
  "signOutAdmin w = (None, w\<lparr>storage := (storage w)\<lparr>auth_token := None\<rparr>\<rparr>)"

definition no_options :: RequestInit where
  "no_options = \<lparr>method = None, body = None\<rparr>"

definition getCurrentUser ::
  "string option \<Rightarrow> AdminUser remote \<Rightarrow> world \<Rightarrow> AdminUser option \<times> world" where
  "getCurrentUser env remote w =
     (case auth_token (storage w) of
        None \<Rightarrow> (None, w)
      | Some tok \<Rightarrow>
          if tok = [] then (None, w)
          else
            (case apiRequest env remote (storage w) ''/api/auth/me'' no_options of
               Inr response \<Rightarrow> (Some response, w)
             | Inl _ \<Rightarrow> (None, w\<lparr>storage := (storage w)\<lparr>auth_token := None\<rparr>\<rparr>)))"

definition hasValidToken :: "world \<Rightarrow> bool" where
  "hasValidToken w \<longleftrightarrow> (case auth_token (storage w) of None \<Rightarrow> False | Some tok \<Rightarrow> tok \<noteq> [])"

text \<open>The object \<open>{ valid, user }\<close> that \<open>verifyToken\<close> resolves to.\<close>

record verify_result =
  valid :: bool
  verified_user :: "AdminUser option"

definition verifyToken ::
  "string option \<Rightarrow> AdminUser remote \<Rightarrow> world \<Rightarrow> verify_result \<times> world" where
  "verifyToken env remote w =
     (case auth_token (storage w) of
        None \<Rightarrow> (\<lparr>valid = False, verified_user = None\<rparr>, w)
      | Some tok \<Rightarrow>
          if tok = [] then (\<lparr>valid = False, verified_user = None\<rparr>, w)
          else
            (case apiRequest env remote (storage w) ''/api/auth/me'' no_options of
               Inr u \<Rightarrow> (\<lparr>valid = True, verified_user = Some u\<rparr>, w)
             | Inl _ \<Rightarrow> (\<lparr>valid = False, verified_user = None\<rparr>, w)))"

text \<open>
  An exchange with the remote authority fails when \<open>fetch\<close> rejects, when the response
  is not OK, or when the body of an OK response does not parse.
\<close>

definition exchange_fails :: "'a fetch_result \<Rightarrow> bool" where
  "exchange_fails r \<longleftrightarrow>
     (case r of
        Rejected _ \<Rightarrow> True
      | Response status b \<Rightarrow>
          \<not> response_ok status \<or> (case b of SyntaxError _ \<Rightarrow> True | Json _ _ \<Rightarrow> False))"

text \<open>The sign-in exchange, the request to \<open>/api/auth/login\<close>, fails.\<close>

definition login_fails ::
  "string option \<Rightarrow> AuthResponse remote \<Rightarrow> string \<Rightarrow> string \<Rightarrow> world \<Rightarrow> bool" where
  "login_fails env remote em pw w \<longleftrightarrow>
     exchange_fails
       (remote (build_request env (storage w) ''/api/auth/login'' (login_options em pw)))"

text \<open>
  The verification of a stored credential fails: a credential is stored and the exchange
  at \<open>/api/auth/me\<close> fails.
\<close>

definition verification_fails :: "string option \<Rightarrow> AdminUser remote \<Rightarrow> world \<Rightarrow> bool" where
  "verification_fails env remote w \<longleftrightarrow>
     (case auth_token (storage w) of
        None \<Rightarrow> False
      | Some tok \<Rightarrow>
          tok \<noteq> [] \<and>
          exchange_fails (remote (build_request env (storage w) ''/api/auth/me'' no_options)))"

subsection \<open>Remote authorities and states of the scenarios\<close>

definition admin_profile :: AdminUser where
  "admin_profile =
     \<lparr>user_id = ''1'', email = ''admin@example.com'', displayName = None, user_isAdmin = True\<rparr>"

definition granted :: AuthResponse where
  "granted = \<lparr>access_token = ''tok123'', token_type = ''bearer'', auth_user = admin_profile\<rparr>"

text \<open>An authority that accepts every sign-in.\<close>

definition granted_json :: json where
  "granted_json =
     JObject [(''access_token'', JString ''tok123''), (''token_type'', JString ''bearer''),
       (''user'', JObject [(''id'', JString ''1''), (''email'', JString ''admin@example.com''),
          (''isAdmin'', JBool True)])]"

definition accepting_authority :: "AuthResponse remote" where
  "accepting_authority req = Response 200 (Json granted_json granted)"

text \<open>An authority that answers every sign-in with status 401 and a message.\<close>

definition rejecting_authority :: "AuthResponse remote" where
  "rejecting_authority req = Response 401 (Json (JObject [(''detail'', JString ''Invalid credentials'')]) granted)"

text \<open>An authority that answers every verification with status 401 and a message.\<close>

definition expired_authority :: "AdminUser remote" where
  "expired_authority req =
     Response 401 (Json (JObject [(''detail'', JString ''Token expired'')]) admin_profile)"

text \<open>A server that answers with status 500 and a body that is not JSON.\<close>

definition broken_server :: "AdminUser remote" where
  "broken_server req = Response 500 (SyntaxError ''Unexpected token < in JSON at position 0'')"

text \<open>A server that answers with status 404 and a JSON body without a message.\<close>

definition silent_server :: "AdminUser remote" where
  "silent_server req = Response 404 (Json (JObject []) admin_profile)"

text \<open>A server that answers with status 500 and the JSON body \<open>null\<close>.\<close>

definition null_server :: "AdminUser remote" where
  "null_server req = Response 500 (Json JNull admin_profile)"

text \<open>
  A server that answers with status 422 and a \<open>detail\<close> that is a list of objects, the
  shape of a validation report.
\<close>

definition validation_server :: "AdminUser remote" where
  "validation_server req =
     Response 422
       (Json (JObject [(''detail'', JArray [JObject [(''msg'', JString ''field required'')]])])
          admin_profile)"

definition empty_storage :: session_storage where
  "empty_storage = \<lparr>auth_token = None, auth_storage = None\<rparr>"

text \<open>The state at page load, and a state that holds a stored credential.\<close>

definition fresh_world :: world where
  "fresh_world = \<lparr>storage = empty_storage, store = initial_store\<rparr>"

definition stale_world :: world where
  "stale_world =
     \<lparr>storage = \<lparr>auth_token = Some ''tok123'', auth_storage = None\<rparr>, store = initial_store\<rparr>"

section \<open>Facts about the matcher and the two normalizers\<close>

lemma takeWhile_idchar_app:
  "list_all idchar g \<Longrightarrow> rest = [] \<or> \<not> idchar (hd rest) \<Longrightarrow> takeWhile idchar (g @ rest) = g"
  by (induction g) (auto simp: neq_Nil_conv takeWhile_eq_Nil_iff)

lemma capture_at_nonempty: "capture_at p s = Some g \<Longrightarrow> g \<noteq> [] \<and> list_all idchar g"
  by (auto simp: capture_at_def list_all_iff split: option.splits if_splits dest: set_takeWhileD)

lemma re_capture_nonempty: "re_capture p s = Some g \<Longrightarrow> g \<noteq> [] \<and> list_all idchar g"
  by (induction p s rule: re_capture.induct) (auto split: option.splits dest: capture_at_nonempty)


lemma startsWith_append_short:
  "length p \<le> length s \<Longrightarrow> startsWith (s @ t) p = startsWith s p"
  by (induction s p rule: startsWith.induct) auto

lemma startsWith_self_append: "startsWith (p @ t) p"
  by (induction p) auto

lemma prefix_at_lits:
  "prefix_at (lits l) s = (if startsWith s l then Some (drop (length l) s) else None)"
  unfolding lits_def by (induction s l rule: startsWith.induct) auto

lemma includes_str_drop:
  "includes_str s p \<longleftrightarrow> (\<exists>k\<le>length s. startsWith (drop k s) p)"
proof (induction s)
  case Nil
  show ?case by (cases p) auto
next
  case (Cons c cs)
  show ?case
  proof
    assume "includes_str (c # cs) p"
    then consider "startsWith (c # cs) p" | "includes_str cs p" by auto
    then show "\<exists>k\<le>length (c # cs). startsWith (drop k (c # cs)) p"
    proof cases
      case 1
      then have "startsWith (drop 0 (c # cs)) p" by simp
      then show ?thesis by blast
    next
      case 2
      with Cons obtain k where "k \<le> length cs" "startsWith (drop k cs) p" by blast
      then have "Suc k \<le> length (c # cs) \<and> startsWith (drop (Suc k) (c # cs)) p" by simp
      then show ?thesis by blast
    qed
  next
    assume "\<exists>k\<le>length (c # cs). startsWith (drop k (c # cs)) p"
    then obtain k where k: "k \<le> length (c # cs)" "startsWith (drop k (c # cs)) p" by blast
    show "includes_str (c # cs) p"
    proof (cases k)
      case 0
      with k show ?thesis by simp
    next
      case (Suc j)
      with k have "j \<le> length cs" "startsWith (drop j cs) p" by simp_all
      with Cons show ?thesis by auto
    qed
  qed
qed

lemma re_capture_skip:
  "(\<And>k. k < length pre \<Longrightarrow> capture_at p (drop k pre @ x) = None) \<Longrightarrow>
   re_capture p (pre @ x) = re_capture p x"
proof (induction pre)
  case Nil
  show ?case by simp
next
  case (Cons c cs)
  have "capture_at p (drop 0 (c # cs) @ x) = None" by (rule Cons.prems) simp
  then have h0: "capture_at p (c # cs @ x) = None" by simp
  have "re_capture p (cs @ x) = re_capture p x"
  proof (rule Cons.IH)
    fix k assume "k < length cs"
    then have "capture_at p (drop (Suc k) (c # cs) @ x) = None" by (intro Cons.prems) simp
    then show "capture_at p (drop k cs @ x) = None" by simp
  qed
  with h0 show ?case by simp
qed

lemma capture_at_lits_here:
  assumes "g \<noteq> []" "list_all idchar g" "rest = [] \<or> \<not> idchar (hd rest)"
  shows "capture_at (lits l) (l @ g @ rest) = Some g"
  using assms by (simp add: capture_at_def prefix_at_lits startsWith_self_append takeWhile_idchar_app)

lemma re_capture_here:
  assumes "capture_at p x = Some g"
  shows "re_capture p x = Some g"
  using assms by (cases x) auto

lemma re_capture_lits_first:
  assumes g: "g \<noteq> []" "list_all idchar g" "rest = [] \<or> \<not> idchar (hd rest)"
    and l: "l \<noteq> []"
    and first: "\<not> includes_str (pre @ butlast l) l"
  shows "re_capture (lits l) (pre @ l @ g @ rest) = Some g"
proof -
  have "capture_at (lits l) (drop k pre @ l @ g @ rest) = None" if k: "k < length pre" for k
  proof -
    have len: "length l \<le> length (drop k pre @ butlast l)" using k l by (cases l rule: rev_cases) auto
    have "k \<le> length (pre @ butlast l)" using k by simp
    with first have "\<not> startsWith (drop k (pre @ butlast l)) l"
      unfolding includes_str_drop by blast
    then have "\<not> startsWith (drop k pre @ butlast l) l" using k by simp
    then have "\<not> startsWith ((drop k pre @ butlast l) @ ([last l] @ g @ rest)) l"
      using startsWith_append_short[OF len, of "[last l] @ g @ rest"] by blast
    moreover have "(drop k pre @ butlast l) @ ([last l] @ g @ rest) = drop k pre @ l @ g @ rest"
      using l by simp
    ultimately have "\<not> startsWith (drop k pre @ l @ g @ rest) l" by metis
    then show ?thesis by (simp add: capture_at_def prefix_at_lits)
  qed
  then have "re_capture (lits l) (pre @ l @ g @ rest) = re_capture (lits l) (l @ g @ rest)"
    by (rule re_capture_skip)
  also have "\<dots> = Some g"
    by (rule re_capture_here) (rule capture_at_lits_here[OF g])
  finally show ?thesis .
qed


lemma display_file_id_lh3:
  "re_capture lh3_pat url = Some g \<Longrightarrow> display_file_id url = g"
  by (auto simp: display_file_id_def Let_def split: option.splits dest: re_capture_nonempty)

lemma display_file_id_file:
  "re_capture lh3_pat url = None \<Longrightarrow> re_capture file_pat url = Some g \<Longrightarrow> display_file_id url = g"
  by (auto simp: display_file_id_def Let_def split: option.splits dest: re_capture_nonempty)

lemma admin_file_id_file:
  "re_capture file_pat input = Some g \<Longrightarrow> admin_file_id input = g"
  by (auto simp: admin_file_id_def Let_def split: option.splits dest: re_capture_nonempty)

lemma admin_file_id_idchars:
  "admin_file_id input \<noteq> [] \<Longrightarrow> list_all idchar (admin_file_id input)"
  by (auto simp: admin_file_id_def Let_def bare_id_def split: option.splits if_splits dest: re_capture_nonempty)

lemma getEmbeddable_guarded:
  assumes "url \<noteq> []" "\<not> startsWith url ''data:''" "\<not> startsWith url ''/''"
    "\<not> startsWith url ''http://localhost''"
    "includes_str url ''google.com'' \<or> includes_str url ''googleusercontent.com''"
  shows "getEmbeddableImageUrl env (Some url) =
    (if display_file_id url \<noteq> [] then api_url env @ ''/api/images/drive/'' @ display_file_id url
     else api_url env @ ''/api/images/proxy?url='' @ encodeURIComponent url)"
  using assms by (auto simp: getEmbeddableImageUrl_def Let_def)

lemma lh3_capture:
  assumes "g \<noteq> []" "list_all idchar g" "rest = [] \<or> \<not> idchar (hd rest)"
  shows "re_capture lh3_pat (''https://lh3.googleusercontent.com/d/'' @ g @ rest) = Some g"
proof -
  have "re_capture (lits ''googleusercontent.com/d/'')
          (''https://lh3.'' @ ''googleusercontent.com/d/'' @ g @ rest) = Some g"
    by (rule re_capture_lits_first[OF assms]) simp_all
  then show ?thesis by (simp add: lh3_pat_def)
qed

lemma display_lh3_url:
  assumes "g \<noteq> []" "list_all idchar g" "rest = [] \<or> \<not> idchar (hd rest)"
  shows "getEmbeddableImageUrl env (Some (''https://lh3.googleusercontent.com/d/'' @ g @ rest)) =
         api_url env @ ''/api/images/drive/'' @ g"
proof -
  let ?url = "''https://lh3.googleusercontent.com/d/'' @ g @ rest"
  have id: "display_file_id ?url = g"
    by (rule display_file_id_lh3) (rule lh3_capture[OF assms])
  have "getEmbeddableImageUrl env (Some ?url) =
    (if display_file_id ?url \<noteq> [] then api_url env @ ''/api/images/drive/'' @ display_file_id ?url
     else api_url env @ ''/api/images/proxy?url='' @ encodeURIComponent ?url)"
    by (rule getEmbeddable_guarded) simp_all
  with id assms(1) show ?thesis by simp
qed

lemma display_file_id_id:
  "re_capture lh3_pat url = None \<Longrightarrow> re_capture file_pat url = None \<Longrightarrow>
   re_capture open_pat url = None \<Longrightarrow> re_capture id_pat url = Some g \<Longrightarrow> display_file_id url = g"
  by (auto simp: display_file_id_def Let_def split: option.splits dest: re_capture_nonempty)

lemma admin_file_id_id:
  "re_capture file_pat input = None \<Longrightarrow> re_capture id_pat input = Some g \<Longrightarrow> admin_file_id input = g"
  by (auto simp: admin_file_id_def Let_def split: option.splits dest: re_capture_nonempty)

text \<open>The definitions that evaluate a pattern on a given string.\<close>

lemmas pat_eval = lh3_pat_def file_pat_def open_pat_def id_pat_def d_pat_def uc_pat_def lits_def
  capture_at_def idchar_def

text \<open>\<open>apiRequest\<close> throws exactly when the exchange fails.\<close>

lemma apiRequest_fails_iff:
  "isl (apiRequest env remote ss endpoint options) \<longleftrightarrow>
     exchange_fails (remote (build_request env ss endpoint options))"
  by (auto simp: apiRequest_def exchange_fails_def Let_def
      split: fetch_result.splits parsed.splits option.splits)

section \<open>The display-time normalizer: results\<close>

text \<open>
  C5. For an absent input (\<open>null\<close> or \<open>undefined\<close>) and for the empty string,
  \<open>getEmbeddableImageUrl\<close> returns the placeholder path \<open>/placeholder.jpg\<close>, whatever the
  configured API base is.
\<close>

theorem placeholder_for_absent_or_empty:
  "getEmbeddableImageUrl env None = ''/placeholder.jpg'' \<and>
   getEmbeddableImageUrl env (Some []) = ''/placeholder.jpg''"
  by (simp add: getEmbeddableImageUrl_def)

text \<open>
  C6, as stated, fails at the empty string: it contains neither \<open>google.com\<close> nor
  \<open>googleusercontent.com\<close>, and the result is the placeholder path, not the input.
\<close>

theorem non_google_unchanged_counterexample:
  "\<not> includes_str [] ''google.com'' \<and> \<not> includes_str [] ''googleusercontent.com'' \<and>
   getEmbeddableImageUrl None (Some []) = ''/placeholder.jpg'' \<and>
   getEmbeddableImageUrl None (Some []) \<noteq> []"
  by (simp add: getEmbeddableImageUrl_def)

text \<open>
  C6, amended. A non-empty string that contains neither \<open>google.com\<close> nor
  \<open>googleusercontent.com\<close> is returned unchanged; and on every string that contains
  neither, the empty one included, applying the normalizer twice gives what applying it
  once gives.
\<close>

theorem non_google_unchanged:
  assumes "\<not> includes_str url ''google.com''" "\<not> includes_str url ''googleusercontent.com''"
  shows "(url \<noteq> [] \<longrightarrow> getEmbeddableImageUrl env (Some url) = url) \<and>
         getEmbeddableImageUrl env (Some (getEmbeddableImageUrl env (Some url))) =
         getEmbeddableImageUrl env (Some url)"
proof (cases "url = []")
  case True
  then show ?thesis by (simp add: getEmbeddableImageUrl_def)
next
  case False
  with assms have "getEmbeddableImageUrl env (Some url) = url"
    by (simp add: getEmbeddableImageUrl_def)
  then show ?thesis by simp
qed

text \<open>The amended C6 at \<open>https://example.com/a.jpg\<close>.\<close>

theorem non_google_unchanged_witness:
  "getEmbeddableImageUrl None (Some ''https://example.com/a.jpg'') = ''https://example.com/a.jpg'' \<and>
   getEmbeddableImageUrl None (Some (getEmbeddableImageUrl None (Some ''https://example.com/a.jpg''))) =
   getEmbeddableImageUrl None (Some ''https://example.com/a.jpg'')"
proof -
  have a: "\<not> includes_str ''https://example.com/a.jpg'' ''google.com''" by simp
  have b: "\<not> includes_str ''https://example.com/a.jpg'' ''googleusercontent.com''" by simp
  have c: "''https://example.com/a.jpg'' \<noteq> []" by simp
  from non_google_unchanged[OF a b, of None] c show ?thesis by blast
qed




text \<open>
  C1, as stated, fails at a URL on a Google domain that starts with \<open>http://localhost\<close>:
  the input contains \<open>google.com\<close>, does not match the content-host form and has the
  segment \<open>/file/d/ABC123xyz\<close>, but the guard for local development hosts returns it
  unchanged.
\<close>

theorem file_segment_counterexample:
  "includes_str ''http://localhost.google.com/file/d/ABC123xyz/view'' ''google.com'' \<and>
   re_capture lh3_pat ''http://localhost.google.com/file/d/ABC123xyz/view'' = None \<and>
   re_capture file_pat ''http://localhost.google.com/file/d/ABC123xyz/view'' = Some ''ABC123xyz'' \<and>
   getEmbeddableImageUrl (Some ''http://localhost:8000'')
     (Some ''http://localhost.google.com/file/d/ABC123xyz/view'') =
     ''http://localhost.google.com/file/d/ABC123xyz/view'' \<and>
   getEmbeddableImageUrl (Some ''http://localhost:8000'')
     (Some ''http://localhost.google.com/file/d/ABC123xyz/view'') \<noteq>
     ''http://localhost:8000/api/images/drive/ABC123xyz''"
  by (simp add: getEmbeddableImageUrl_def lh3_pat_def file_pat_def lits_def capture_at_def idchar_def)

text \<open>
  C1, amended. Let the input not start with \<open>data:\<close>, \<open>/\<close> or \<open>http://localhost\<close>,
  contain \<open>google.com\<close> or \<open>googleusercontent.com\<close>, and not match the content-host
  form. If its first \<open>/file/d/\<close> is followed by an identifier (a non-empty run of
  letters, digits, underscore and hyphen that ends at the end of the input or at another
  character), then the \<open>/file/d/\<close> pattern captures exactly that identifier and
  \<open>getEmbeddableImageUrl\<close> returns \<open><apiBase>/api/images/drive/<id>\<close>.
\<close>

theorem file_segment_proxied:
  assumes "\<not> startsWith url ''data:''" "\<not> startsWith url ''/''"
    "\<not> startsWith url ''http://localhost''"
    "includes_str url ''google.com'' \<or> includes_str url ''googleusercontent.com''"
    and lh3: "re_capture lh3_pat url = None"
    and seg: "url = pre @ ''/file/d/'' @ fid @ rest"
    and fid: "fid \<noteq> []" "list_all idchar fid" "rest = [] \<or> \<not> idchar (hd rest)"
    and first: "\<not> includes_str (pre @ ''/file/d'') ''/file/d/''"
  shows "re_capture file_pat url = Some fid \<and>
         getEmbeddableImageUrl env (Some url) = api_url env @ ''/api/images/drive/'' @ fid"
proof -
  have "re_capture (lits ''/file/d/'') (pre @ ''/file/d/'' @ fid @ rest) = Some fid"
    by (rule re_capture_lits_first[OF fid]) (use first in simp_all)
  then have m: "re_capture file_pat url = Some fid" by (simp add: file_pat_def seg)
  have ne: "url \<noteq> []" using seg by simp
  have "display_file_id url = fid" by (rule display_file_id_file[OF lh3 m])
  with getEmbeddable_guarded[OF ne assms(1-4), of env] fid(1) m show ?thesis by simp
qed

text \<open>
  The amended C1 at the scenario of the specification: the input
  \<open>https://drive.google.com/file/d/ABC123xyz/view\<close> with the API base
  \<open>http://localhost:8000\<close>.
\<close>

theorem file_segment_proxied_witness:
  "re_capture file_pat ''https://drive.google.com/file/d/ABC123xyz/view'' = Some ''ABC123xyz'' \<and>
   getEmbeddableImageUrl (Some ''http://localhost:8000'')
     (Some ''https://drive.google.com/file/d/ABC123xyz/view'') =
     ''http://localhost:8000/api/images/drive/ABC123xyz''"
proof -
  let ?u = "''https://drive.google.com/file/d/ABC123xyz/view''"
  have g: "\<not> startsWith ?u ''data:''" "\<not> startsWith ?u ''/''"
    "\<not> startsWith ?u ''http://localhost''"
    "includes_str ?u ''google.com'' \<or> includes_str ?u ''googleusercontent.com''"
    by simp_all
  have lh3: "re_capture lh3_pat ?u = None"
    by (simp add: lh3_pat_def lits_def capture_at_def)
  have seg: "?u = ''https://drive.google.com'' @ ''/file/d/'' @ ''ABC123xyz'' @ ''/view''" by simp
  have fid: "''ABC123xyz'' \<noteq> []" "list_all idchar ''ABC123xyz''"
    "''/view'' = [] \<or> \<not> idchar (hd ''/view'')"
    by (simp_all add: idchar_def)
  have first: "\<not> includes_str (''https://drive.google.com'' @ ''/file/d'') ''/file/d/''" by simp
  from file_segment_proxied[OF g lh3 seg fid first, of "Some ''http://localhost:8000''"]
  show ?thesis by (simp add: api_url_def)
qed

text \<open>
  C2, as stated, fails for the display-time normalizer: a content-host URL is not returned
  unchanged, its identifier is extracted and the result is the proxy URL.
\<close>

theorem content_host_url_counterexample:
  "getEmbeddableImageUrl (Some ''http://localhost:8000'')
     (Some ''https://lh3.googleusercontent.com/d/ABC123xyz'') =
     ''http://localhost:8000/api/images/drive/ABC123xyz'' \<and>
   getEmbeddableImageUrl (Some ''http://localhost:8000'')
     (Some ''https://lh3.googleusercontent.com/d/ABC123xyz'') \<noteq>
     ''https://lh3.googleusercontent.com/d/ABC123xyz''"
  by (simp add: getEmbeddableImageUrl_def display_file_id_def api_url_def pat_eval)

text \<open>
  C2, amended. For a content-host direct-file URL
  \<open>https://lh3.googleusercontent.com/d/<id>\<close> (the identifier may be followed by more,
  starting with a character outside the class), the admin-side \<open>extractDriveUrl\<close> returns
  the input unchanged, and the display-time \<open>getEmbeddableImageUrl\<close> returns
  \<open><apiBase>/api/images/drive/<id>\<close>.
\<close>

theorem content_host_url_handling:
  assumes "fid \<noteq> []" "list_all idchar fid" "rest = [] \<or> \<not> idchar (hd rest)"
  shows "extractDriveUrl (''https://lh3.googleusercontent.com/d/'' @ fid @ rest) =
           ''https://lh3.googleusercontent.com/d/'' @ fid @ rest \<and>
         getEmbeddableImageUrl env (Some (''https://lh3.googleusercontent.com/d/'' @ fid @ rest)) =
           api_url env @ ''/api/images/drive/'' @ fid"
proof -
  have "extractDriveUrl (''https://lh3.googleusercontent.com/d/'' @ fid @ rest) =
           ''https://lh3.googleusercontent.com/d/'' @ fid @ rest"
    by (simp add: extractDriveUrl_def)
  with display_lh3_url[OF assms, of env] show ?thesis by simp
qed

text \<open>
  The amended C2 at \<open>https://lh3.googleusercontent.com/d/ABC123xyz\<close>.
\<close>

theorem content_host_url_handling_witness:
  "extractDriveUrl ''https://lh3.googleusercontent.com/d/ABC123xyz'' =
     ''https://lh3.googleusercontent.com/d/ABC123xyz'' \<and>
   getEmbeddableImageUrl None (Some ''https://lh3.googleusercontent.com/d/ABC123xyz'') =
     ''http://localhost:8000/api/images/drive/ABC123xyz''"
proof -
  have h: "''ABC123xyz'' \<noteq> []" "list_all idchar ''ABC123xyz''" "[] = [] \<or> \<not> idchar (hd [])"
    by (simp_all add: idchar_def)
  from content_host_url_handling[OF h, of None] show ?thesis by (simp add: api_url_def)
qed

text \<open>
  C3, as stated, fails in both directions, and the two normalizers can also extract
  different identifiers. A bare identifier of twenty or more characters is accepted by
  \<open>extractDriveUrl\<close> and returned unchanged, with no extraction, by
  \<open>getEmbeddableImageUrl\<close>. From \<open>https://docs.google.com/document/d/XYZ/edit\<close> the
  display-time normalizer extracts \<open>XYZ\<close> through its \<open>/d/\<close> pattern, and the admin-side
  one extracts nothing. From \<open>https://drive.google.com/uc?id=AAA&u=open?id=BBB\<close> the
  display-time normalizer extracts \<open>BBB\<close> and the admin-side one \<open>AAA\<close>.
\<close>

theorem normalizers_agree_counterexample:
  "extractDriveUrl ''1ms1u6tuw22Bsl1SsGpR1zXtkR_zsgddx'' =
     ''https://lh3.googleusercontent.com/d/1ms1u6tuw22Bsl1SsGpR1zXtkR_zsgddx'' \<and>
   getEmbeddableImageUrl None (Some ''1ms1u6tuw22Bsl1SsGpR1zXtkR_zsgddx'') =
     ''1ms1u6tuw22Bsl1SsGpR1zXtkR_zsgddx'' \<and>
   getEmbeddableImageUrl None (Some ''https://docs.google.com/document/d/XYZ/edit'') =
     ''http://localhost:8000/api/images/drive/XYZ'' \<and>
   admin_file_id ''https://docs.google.com/document/d/XYZ/edit'' = [] \<and>
   extractDriveUrl ''https://docs.google.com/document/d/XYZ/edit'' =
     ''https://docs.google.com/document/d/XYZ/edit'' \<and>
   getEmbeddableImageUrl None (Some ''https://drive.google.com/uc?id=AAA&u=open?id=BBB'') =
     ''http://localhost:8000/api/images/drive/BBB'' \<and>
   extractDriveUrl ''https://drive.google.com/uc?id=AAA&u=open?id=BBB'' =
     ''https://lh3.googleusercontent.com/d/AAA''"
proof -
  have a1: "admin_file_id ''1ms1u6tuw22Bsl1SsGpR1zXtkR_zsgddx'' = ''1ms1u6tuw22Bsl1SsGpR1zXtkR_zsgddx''"
    by (simp add: admin_file_id_def bare_id_def pat_eval)
  have a2: "admin_file_id ''https://docs.google.com/document/d/XYZ/edit'' = []"
    by (simp add: admin_file_id_def bare_id_def pat_eval)
  have a3: "admin_file_id ''https://drive.google.com/uc?id=AAA&u=open?id=BBB'' = ''AAA''"
    by (simp add: admin_file_id_def bare_id_def pat_eval)
  have d1: "getEmbeddableImageUrl None (Some ''1ms1u6tuw22Bsl1SsGpR1zXtkR_zsgddx'') =
     ''1ms1u6tuw22Bsl1SsGpR1zXtkR_zsgddx''"
    by (simp add: getEmbeddableImageUrl_def)
  have d2: "getEmbeddableImageUrl None (Some ''https://docs.google.com/document/d/XYZ/edit'') =
     ''http://localhost:8000/api/images/drive/XYZ''"
    by (simp add: getEmbeddableImageUrl_def display_file_id_def api_url_def pat_eval)
  have d3: "getEmbeddableImageUrl None (Some ''https://drive.google.com/uc?id=AAA&u=open?id=BBB'') =
     ''http://localhost:8000/api/images/drive/BBB''"
    by (simp add: getEmbeddableImageUrl_def display_file_id_def api_url_def pat_eval)
  show ?thesis
    unfolding extractDriveUrl_def a1 a2 a3 d1 d2 d3 by simp
qed

text \<open>
  C3, amended. Whenever \<open>extractDriveUrl\<close> derives an identifier from its input, the
  reference it produces is \<open>https://lh3.googleusercontent.com/d/<id>\<close>, and
  \<open>getEmbeddableImageUrl\<close> applied to that stored reference extracts the same identifier
  and returns \<open><apiBase>/api/images/drive/<id>\<close>: no stored reference is one the
  display-time normalizer cannot resolve. On the original input the two agree when the
  display-time normalizer reaches its extraction, the content-host pattern does not match,
  and either the \<open>/file/d/\<close> pattern matches, or the \<open>open?id=\<close> pattern does not and
  the \<open>?id=\<close>/\<open>&id=\<close> pattern does.
\<close>

theorem stored_reference_resolves:
  assumes ne: "input \<noteq> []"
    and nolh3: "\<not> includes_str input ''lh3.googleusercontent.com''"
    and fid: "admin_file_id input = fid" "fid \<noteq> []"
  shows "extractDriveUrl input = ''https://lh3.googleusercontent.com/d/'' @ fid \<and>
         getEmbeddableImageUrl env (Some (extractDriveUrl input)) =
           api_url env @ ''/api/images/drive/'' @ fid \<and>
         (\<not> startsWith input ''data:'' \<and> \<not> startsWith input ''/'' \<and>
          \<not> startsWith input ''http://localhost'' \<and>
          (includes_str input ''google.com'' \<or> includes_str input ''googleusercontent.com'') \<and>
          re_capture lh3_pat input = None \<and>
          (re_capture file_pat input \<noteq> None \<or>
           re_capture open_pat input = None \<and> re_capture id_pat input \<noteq> None)
          \<longrightarrow> getEmbeddableImageUrl env (Some input) = api_url env @ ''/api/images/drive/'' @ fid)"
proof -
  have ex: "extractDriveUrl input = ''https://lh3.googleusercontent.com/d/'' @ fid"
    using ne nolh3 fid by (simp add: extractDriveUrl_def)
  have "list_all idchar fid" using admin_file_id_idchars[of input] fid by simp
  then have disp: "getEmbeddableImageUrl env (Some (''https://lh3.googleusercontent.com/d/'' @ fid @ [])) =
           api_url env @ ''/api/images/drive/'' @ fid"
    using fid(2) by (intro display_lh3_url) simp_all
  have orig: "getEmbeddableImageUrl env (Some input) = api_url env @ ''/api/images/drive/'' @ fid"
    if g: "\<not> startsWith input ''data:''" "\<not> startsWith input ''/''"
          "\<not> startsWith input ''http://localhost''"
          "includes_str input ''google.com'' \<or> includes_str input ''googleusercontent.com''"
      and l: "re_capture lh3_pat input = None"
      and m: "re_capture file_pat input \<noteq> None \<or>
              re_capture open_pat input = None \<and> re_capture id_pat input \<noteq> None"
  proof -
    have "display_file_id input = admin_file_id input"
    proof (cases "re_capture file_pat input")
      case (Some g)
      then show ?thesis using l by (simp add: display_file_id_file admin_file_id_file)
    next
      case None
      with m obtain g where "re_capture open_pat input = None" "re_capture id_pat input = Some g"
        by auto
      with None l show ?thesis by (simp add: display_file_id_id admin_file_id_id)
    qed
    with getEmbeddable_guarded[OF ne g, of env] fid show ?thesis by simp
  qed
  from ex disp orig show ?thesis by simp
qed

text \<open>
  The amended C3 at \<open>https://drive.google.com/file/d/ABC123xyz/view\<close>.
\<close>

theorem stored_reference_resolves_witness:
  "extractDriveUrl ''https://drive.google.com/file/d/ABC123xyz/view'' =
     ''https://lh3.googleusercontent.com/d/ABC123xyz'' \<and>
   getEmbeddableImageUrl None (Some (extractDriveUrl ''https://drive.google.com/file/d/ABC123xyz/view'')) =
     ''http://localhost:8000/api/images/drive/ABC123xyz'' \<and>
   getEmbeddableImageUrl None (Some ''https://drive.google.com/file/d/ABC123xyz/view'') =
     ''http://localhost:8000/api/images/drive/ABC123xyz''"
proof -
  let ?u = "''https://drive.google.com/file/d/ABC123xyz/view''"
  have ne: "?u \<noteq> []" by simp
  have nolh3: "\<not> includes_str ?u ''lh3.googleusercontent.com''" by simp
  have fm: "re_capture file_pat ?u = Some ''ABC123xyz''" by (simp add: pat_eval)
  have fid: "admin_file_id ?u = ''ABC123xyz''" "''ABC123xyz'' \<noteq> []"
    by (simp_all add: admin_file_id_file[OF fm])
  have g: "\<not> startsWith ?u ''data:'' \<and> \<not> startsWith ?u ''/'' \<and>
          \<not> startsWith ?u ''http://localhost'' \<and>
          (includes_str ?u ''google.com'' \<or> includes_str ?u ''googleusercontent.com'') \<and>
          re_capture lh3_pat ?u = None \<and>
          (re_capture file_pat ?u \<noteq> None \<or>
           re_capture open_pat ?u = None \<and> re_capture id_pat ?u \<noteq> None)"
    unfolding fm by (simp add: lh3_pat_def lits_def capture_at_def)
  have api: "api_url None = ''http://localhost:8000''" by (simp add: api_url_def)
  from stored_reference_resolves[OF ne nolh3 fid, of None] g
  have "extractDriveUrl ?u = ''https://lh3.googleusercontent.com/d/'' @ ''ABC123xyz'' \<and>
        getEmbeddableImageUrl None (Some (extractDriveUrl ?u)) =
          api_url None @ ''/api/images/drive/'' @ ''ABC123xyz'' \<and>
        getEmbeddableImageUrl None (Some ?u) = api_url None @ ''/api/images/drive/'' @ ''ABC123xyz''"
    by blast
  then show ?thesis by (elim conjE) (simp add: api)
qed

section \<open>The session: results\<close>

text \<open>
  C7. When the sign-in exchange fails (\<open>fetch\<close> rejects, the response is not OK, or the
  body of an OK response does not parse), \<open>signInAdmin\<close> returns an error message with no
  user and no token, and the browser storage and the store are what they were before the
  call. When the exchange does not fail, the result carries the user and the token of the
  response and that token is written under \<open>auth_token\<close>: the credential is written only
  on success.
\<close>

theorem signin_failure_stores_nothing:
  "(login_fails env remote em pw w \<longrightarrow>
      (\<exists>msg. signInAdmin env remote em pw w =
         (\<lparr>res_user = None, res_token = None, res_error = Some msg\<rparr>, w))) \<and>
   (\<not> login_fails env remote em pw w \<longrightarrow>
      (\<exists>r::AuthResponse. signInAdmin env remote em pw w =
        (\<lparr>res_user = Some (auth_user r), res_token = Some (access_token r), res_error = None\<rparr>,
         w\<lparr>storage := (storage w)\<lparr>auth_token := Some (access_token r)\<rparr>\<rparr>)))"
proof -
  let ?res = "apiRequest env remote (storage w) ''/api/auth/login'' (login_options em pw)"
  have f: "login_fails env remote em pw w \<longleftrightarrow> isl ?res"
    by (simp add: login_fails_def apiRequest_fails_iff)
  show ?thesis
  proof (cases ?res)
    case (Inl msg)
    with f show ?thesis by (simp add: signInAdmin_def)
  next
    case (Inr r)
    have "\<exists>r::AuthResponse. signInAdmin env remote em pw w =
        (\<lparr>res_user = Some (auth_user r), res_token = Some (access_token r), res_error = None\<rparr>,
         w\<lparr>storage := (storage w)\<lparr>auth_token := Some (access_token r)\<rparr>\<rparr>)"
      by (rule exI[of _ r]) (simp add: signInAdmin_def Inr)
    moreover from Inr f have "\<not> login_fails env remote em pw w" by simp
    ultimately show ?thesis by simp
  qed
qed

text \<open>
  C7 at the page-load state, with an authority that rejects the credentials and with one
  that accepts them.
\<close>

theorem signin_failure_stores_nothing_witness:
  "login_fails None rejecting_authority ''admin@example.com'' ''wrong'' fresh_world \<and>
   (\<exists>msg. signInAdmin None rejecting_authority ''admin@example.com'' ''wrong'' fresh_world =
      (\<lparr>res_user = None, res_token = None, res_error = Some msg\<rparr>, fresh_world)) \<and>
   \<not> login_fails None accepting_authority ''admin@example.com'' ''secret'' fresh_world \<and>
   (\<exists>r::AuthResponse. signInAdmin None accepting_authority ''admin@example.com'' ''secret'' fresh_world =
      (\<lparr>res_user = Some (auth_user r), res_token = Some (access_token r), res_error = None\<rparr>,
       fresh_world\<lparr>storage := (storage fresh_world)\<lparr>auth_token := Some (access_token r)\<rparr>\<rparr>))"
proof -
  have a: "login_fails None rejecting_authority ''admin@example.com'' ''wrong'' fresh_world"
    by (simp add: login_fails_def exchange_fails_def rejecting_authority_def response_ok_def)
  have b: "\<not> login_fails None accepting_authority ''admin@example.com'' ''secret'' fresh_world"
    by (simp add: login_fails_def exchange_fails_def accepting_authority_def response_ok_def)
  from a b
    signin_failure_stores_nothing[of None rejecting_authority "''admin@example.com''" "''wrong''" fresh_world]
    signin_failure_stores_nothing[of None accepting_authority "''admin@example.com''" "''secret''" fresh_world]
  show ?thesis by blast
qed

text \<open>
  C8. In every state, \<open>logout\<close> removes the stored credential, clears the user, the
  token and the admin flag of the store (the loading flag is not touched), and leaves no
  user and no token in the persisted copy of the store; it has no failing branch, and
  \<open>signOutAdmin\<close> reports no error. \<open>verifyToken\<close> called right after \<open>logout\<close>
  returns not valid with no user, whatever the remote authority would answer, and changes
  nothing.
\<close>

theorem logout_clears_session:
  "auth_token (storage (logout w)) = None \<and>
   user (store (logout w)) = None \<and> token (store (logout w)) = None \<and>
   \<not> isAdmin (store (logout w)) \<and>
   isLoading (store (logout w)) = isLoading (store w) \<and>
   (case auth_storage (storage (logout w)) of
      None \<Rightarrow> True
    | Some p \<Rightarrow> p_user p = None \<and> p_token p = None \<and> \<not> p_isAdmin p) \<and>
   fst (signOutAdmin w) = None \<and>
   verifyToken env remote (logout w) = (\<lparr>valid = False, verified_user = None\<rparr>, logout w)"
  by (simp add: logout_def persist_def verifyToken_def signOutAdmin_def Let_def)

text \<open>
  C9. When the verification of a stored credential fails, \<open>verifyToken\<close> returns not valid
  with no user and leaves the browser storage and the store as they were; the credential
  is still stored afterwards.
\<close>

theorem failed_verification_keeps_credential:
  assumes "verification_fails env remote w"
  shows "verifyToken env remote w = (\<lparr>valid = False, verified_user = None\<rparr>, w) \<and>
         (\<exists>tok. tok \<noteq> [] \<and> auth_token (storage (snd (verifyToken env remote w))) = Some tok)"
proof -
  from assms obtain tok where tok: "auth_token (storage w) = Some tok" "tok \<noteq> []"
    and "exchange_fails (remote (build_request env (storage w) ''/api/auth/me'' no_options))"
    by (auto simp: verification_fails_def split: option.splits)
  then have "isl (apiRequest env remote (storage w) ''/api/auth/me'' no_options)"
    by (simp add: apiRequest_fails_iff)
  then obtain e where "apiRequest env remote (storage w) ''/api/auth/me'' no_options = Inl e"
    by (cases "apiRequest env remote (storage w) ''/api/auth/me'' no_options") auto
  with tok have "verifyToken env remote w = (\<lparr>valid = False, verified_user = None\<rparr>, w)"
    by (simp add: verifyToken_def)
  with tok show ?thesis by simp
qed

text \<open>
  C9 at a state with the stored credential \<open>tok123\<close> and an authority that answers 401.
\<close>

theorem failed_verification_keeps_credential_witness:
  "verification_fails None expired_authority stale_world \<and>
   verifyToken None expired_authority stale_world =
     (\<lparr>valid = False, verified_user = None\<rparr>, stale_world) \<and>
   auth_token (storage (snd (verifyToken None expired_authority stale_world))) = Some ''tok123''"
proof -
  have a: "verification_fails None expired_authority stale_world"
    by (simp add: verification_fails_def exchange_fails_def expired_authority_def response_ok_def
        stale_world_def)
  from failed_verification_keeps_credential[OF a] a show ?thesis
    by (auto simp: stale_world_def)
qed

text \<open>
  C10, as stated, fails for a non-OK response whose body is not JSON: the error message is
  the fixed text \<open>Request failed\<close>, and the status code (here 500) is not in it.
\<close>

theorem api_error_message_counterexample:
  "broken_server (build_request None empty_storage ''/api/auth/me'' no_options) =
     Response 500 (SyntaxError ''Unexpected token < in JSON at position 0'') \<and>
   \<not> response_ok 500 \<and>
   apiRequest None broken_server empty_storage ''/api/auth/me'' no_options = Inl ''Request failed'' \<and>
   show_nat 500 = ''500'' \<and>
   \<not> includes_str ''Request failed'' ''500''"
  by (simp add: broken_server_def response_ok_def apiRequest_def show_nat.simps)

text \<open>
  C10, amended. For every non-OK response \<open>apiRequest\<close> throws an error, and its message
  is decided by the body. A body that does not parse as JSON gives the fixed text
  \<open>Request failed\<close>. The JSON body \<open>null\<close> gives the \<open>TypeError\<close> of reading a property of
  \<open>null\<close>. Any other JSON body gives: its \<open>detail\<close> when that is a non-empty string; the
  text \<open>String(detail)\<close> when \<open>detail\<close> is another truthy value; and
  \<open>HTTP error! status: <status>\<close> when \<open>detail\<close> is missing or falsy (\<open>null\<close>,
  \<open>false\<close>, \<open>0\<close>, the empty string), which includes every body that is not an object.
\<close>

theorem api_error_message:
  assumes "remote (build_request env ss endpoint options) = Response status b"
    and "\<not> response_ok status"
  shows "apiRequest env remote ss endpoint options =
    Inl (case b of
           SyntaxError _ \<Rightarrow> ''Request failed''
         | Json JNull _ \<Rightarrow> null_property_message ''detail''
         | Json j _ \<Rightarrow>
             (case detail_of j of
                Some (JString d) \<Rightarrow>
                  (if d \<noteq> [] then d else ''HTTP error! status: '' @ show_nat status)
              | Some v \<Rightarrow>
                  (if js_truthy v then js_string v else ''HTTP error! status: '' @ show_nat status)
              | None \<Rightarrow> ''HTTP error! status: '' @ show_nat status))"
proof (cases b)
  case (SyntaxError m)
  with assms show ?thesis by (simp add: apiRequest_def)
next
  case (Json j p)
  show ?thesis
  proof (cases "j = JNull")
    case True
    with Json assms show ?thesis by (simp add: apiRequest_def)
  next
    case False
    have "apiRequest env remote ss endpoint options =
      (case detail_of j of
         Some d \<Rightarrow>
           (if js_truthy d then Inl (js_string d)
            else Inl (''HTTP error! status: '' @ show_nat status))
       | None \<Rightarrow> Inl (''HTTP error! status: '' @ show_nat status))"
      using Json assms False by (simp add: apiRequest_def)
    also have "\<dots> =
      Inl (case detail_of j of
             Some (JString d) \<Rightarrow>
               (if d \<noteq> [] then d else ''HTTP error! status: '' @ show_nat status)
           | Some v \<Rightarrow>
               (if js_truthy v then js_string v else ''HTTP error! status: '' @ show_nat status)
           | None \<Rightarrow> ''HTTP error! status: '' @ show_nat status)"
      by (simp split: option.splits json.splits)
    finally show ?thesis using Json False by (cases j) simp_all
  qed
qed

text \<open>
  The amended C10 at a 401 response with a message, a 404 response without one, a 500
  response whose body is not JSON, a 500 response with the body \<open>null\<close>, and a 422
  response whose \<open>detail\<close> is a list of objects.
\<close>

theorem api_error_message_witness:
  "apiRequest None expired_authority empty_storage ''/api/auth/me'' no_options = Inl ''Token expired'' \<and>
   apiRequest None silent_server empty_storage ''/api/auth/me'' no_options =
     Inl ''HTTP error! status: 404'' \<and>
   apiRequest None broken_server empty_storage ''/api/auth/me'' no_options = Inl ''Request failed'' \<and>
   apiRequest None null_server empty_storage ''/api/auth/me'' no_options =
     Inl (null_property_message ''detail'') \<and>
   apiRequest None validation_server empty_storage ''/api/auth/me'' no_options =
     Inl ''[object Object]''"
proof -
  have a: "expired_authority (build_request None empty_storage ''/api/auth/me'' no_options) =
      Response 401 (Json (JObject [(''detail'', JString ''Token expired'')]) admin_profile)"
    "\<not> response_ok 401"
    by (simp_all add: expired_authority_def response_ok_def)
  have b: "silent_server (build_request None empty_storage ''/api/auth/me'' no_options) =
      Response 404 (Json (JObject []) admin_profile)" "\<not> response_ok 404"
    by (simp_all add: silent_server_def response_ok_def)
  have c: "broken_server (build_request None empty_storage ''/api/auth/me'' no_options) =
      Response 500 (SyntaxError ''Unexpected token < in JSON at position 0'')" "\<not> response_ok 500"
    by (simp_all add: broken_server_def response_ok_def)
  have d: "null_server (build_request None empty_storage ''/api/auth/me'' no_options) =
      Response 500 (Json JNull admin_profile)" "\<not> response_ok 500"
    by (simp_all add: null_server_def response_ok_def)
  have e: "validation_server (build_request None empty_storage ''/api/auth/me'' no_options) =
      Response 422
       (Json (JObject [(''detail'', JArray [JObject [(''msg'', JString ''field required'')]])])
          admin_profile)" "\<not> response_ok 422"
    by (simp_all add: validation_server_def response_ok_def)
  from api_error_message[where remote = expired_authority, OF a]
    api_error_message[where remote = silent_server, OF b]
    api_error_message[where remote = broken_server, OF c]
    api_error_message[where remote = null_server, OF d]
    api_error_message[where remote = validation_server, OF e]
  show ?thesis by (simp add: show_nat.simps)
qed

end
